theory Spec2Isabelle
  imports Main
begin

section \<open>Strings and exceptions\<close>

text \<open>
  A Python \<open>str\<close> is modelled as a HOL \<open>string\<close>: a list of 8-bit characters, each read
  as the code point of the same number (U+0000 to U+00FF). Every exception the handlers
  of \<open>main.py\<close> can meet is a subclass of \<open>Exception\<close>, so that \<open>except Exception\<close>
  catches each value of \<open>py_exn\<close>.
\<close>

datatype py_exn = ValueError | IndexError | OSError | BackendError string

text \<open>What an endpoint hands back: the exception it lets escape, or its response body.\<close>

type_synonym 'a reply = "py_exn + 'a"

section \<open>The regular expressions of \<open>strptime\<close>\<close>

text \<open>
  \<open>datetime.strptime\<close> compiles its format to a regular expression and calls
  \<open>re.match\<close>. A matcher returns every way to match a prefix of its input as
  (text matched, input left), in the order in which the backtracking engine tries them;
  \<open>re.match\<close> takes the first one.
\<close>

type_synonym rx = "string \<Rightarrow> (string \<times> string) list"

definition cls :: "string \<Rightarrow> rx" where
  "cls allowed s = (case s of [] \<Rightarrow> [] | c # cs \<Rightarrow> if c \<in> set allowed then [([c], cs)] else [])"

definition seq :: "rx \<Rightarrow> rx \<Rightarrow> rx" where
  "seq p q s = [(a @ b, r'). (a, r) \<leftarrow> p s, (b, r') \<leftarrow> q r]"

definition alt :: "rx \<Rightarrow> rx \<Rightarrow> rx" where
  "alt p q s = p s @ q s"

definition digit :: rx where
  "digit = cls ''0123456789''"

definition nonzero :: rx where
  "nonzero = cls ''123456789''"

text \<open>\<open>%d\<close> is \<open>(?P<d>3[0-1]|[1-2]\d|0[1-9]|[1-9]| [1-9])\<close>.\<close>

definition re_d :: rx where
  "re_d = alt (seq (cls ''3'') (cls ''01''))
         (alt (seq (cls ''12'') digit)
         (alt (seq (cls ''0'') nonzero)
         (alt nonzero
              (seq (cls '' '') nonzero))))"

text \<open>\<open>%m\<close> is \<open>(?P<m>1[0-2]|0[1-9]|[1-9])\<close>.\<close>

definition re_m :: rx where
  "re_m = alt (seq (cls ''1'') (cls ''012''))
         (alt (seq (cls ''0'') nonzero)
              nonzero)"

text \<open>\<open>%Y\<close> is \<open>(?P<Y>\d\d\d\d)\<close>.\<close>

definition re_Y :: rx where
  "re_Y = seq digit (seq digit (seq digit digit))"

definition dash :: rx where
  "dash = cls ''-''"

text \<open>
  \<open>int\<close> on a captured group: decimal digits, a leading blank ignored (the last
  alternative of \<open>%d\<close>).
\<close>

definition digit_val :: "char \<Rightarrow> nat" where
  "digit_val c = of_char c - 48"

definition py_int :: "string \<Rightarrow> nat" where
  "py_int s = foldl (\<lambda>n c. 10 * n + digit_val c) 0 (dropWhile (\<lambda>c. c = CHR '' '') s)"

section \<open>Dates\<close>

datatype datetime = Datetime nat nat nat

definition is_leap :: "nat \<Rightarrow> bool" where
  "is_leap y = (y mod 4 = 0 \<and> (y mod 100 \<noteq> 0 \<or> y mod 400 = 0))"

definition days_in_month :: "nat \<Rightarrow> nat \<Rightarrow> nat" where
  "days_in_month y m =
     (if m = 2 then (if is_leap y then 29 else 28)
      else if m \<in> set [4, 6, 9, 11] then 30 else 31)"

text \<open>The constructor of \<open>datetime\<close>: a year from 1 to 9999 and a day of that month.\<close>

definition make_datetime :: "nat \<Rightarrow> nat \<Rightarrow> nat \<Rightarrow> py_exn + datetime" where
  "make_datetime y m d =
     (if 1 \<le> y \<and> y \<le> 9999 \<and> 1 \<le> m \<and> m \<le> 12 \<and> 1 \<le> d \<and> d \<le> days_in_month y m
      then Inr (Datetime y m d) else Inl ValueError)"

text \<open>
  The result of \<open>re.match\<close> on the compiled format, with the three groups as
  (year, month, day): no match raises, and so does input left after the match.
\<close>

definition finish :: "((string \<times> string \<times> string) \<times> string) list \<Rightarrow> py_exn + datetime" where
  "finish ms =
     (case ms of
        [] \<Rightarrow> Inl ValueError
      | ((y, m, d), rest) # _ \<Rightarrow>
          if rest \<noteq> [] then Inl ValueError
          else make_datetime (py_int y) (py_int m) (py_int d))"

text \<open>\<open>datetime.strptime(s, "%Y-%m-%d")\<close>\<close>

definition strptime_Ymd :: "string \<Rightarrow> py_exn + datetime" where
  "strptime_Ymd s =
     finish [((y, m, d), r5).
               (y, r1) \<leftarrow> re_Y s, (x, r2) \<leftarrow> dash r1, (m, r3) \<leftarrow> re_m r2,
               (z, r4) \<leftarrow> dash r3, (d, r5) \<leftarrow> re_d r4]"

text \<open>\<open>datetime.strptime(s, "%d-%m-%Y")\<close>\<close>

definition strptime_dmY :: "string \<Rightarrow> py_exn + datetime" where
  "strptime_dmY s =
     finish [((y, m, d), r5).
               (d, r1) \<leftarrow> re_d s, (x, r2) \<leftarrow> dash r1, (m, r3) \<leftarrow> re_m r2,
               (z, r4) \<leftarrow> dash r3, (y, r5) \<leftarrow> re_Y r4]"

definition digit_char :: "nat \<Rightarrow> char" where
  "digit_char n = char_of (48 + n mod 10)"

definition pad2 :: "nat \<Rightarrow> string" where
  "pad2 n = [digit_char (n div 10), digit_char n]"

definition pad4 :: "nat \<Rightarrow> string" where
  "pad4 n = [digit_char (n div 1000), digit_char (n div 100), digit_char (n div 10), digit_char n]"

text \<open>
  \<open>d.strftime("%d" + sep + "%m" + sep + "%Y")\<close>. The year is written with four
  digits, as the library documents \<open>%Y\<close>. The C library decides: glibc writes a year
  below 1000 without leading zeros, so there the model and the program agree from the
  year 1000 on.
\<close>

definition strftime_dmY :: "char \<Rightarrow> datetime \<Rightarrow> string" where
  "strftime_dmY sep dt =
     (case dt of Datetime y m d \<Rightarrow> pad2 d @ [sep] @ pad2 m @ [sep] @ pad4 y)"

definition convert_date_for_delhi :: "string \<Rightarrow> py_exn + string" where
  "convert_date_for_delhi date_str =
     (case strptime_Ymd date_str of
        Inl e \<Rightarrow> Inl e
      | Inr d \<Rightarrow> Inr (strftime_dmY (CHR ''.'') d))"

definition convert_date_for_bombay :: "string \<Rightarrow> py_exn + string" where
  "convert_date_for_bombay date_str =
     (case strptime_Ymd date_str of
        Inl e \<Rightarrow> Inl e
      | Inr d \<Rightarrow> Inr (strftime_dmY (CHR ''-'') d))"

text \<open>\<open>s[i]\<close> for a constant index \<open>i \<ge> 0\<close>.\<close>

definition char_at :: "string \<Rightarrow> nat \<Rightarrow> py_exn + char" where
  "char_at s i = (if i < length s then Inr (s ! i) else Inl IndexError)"

text \<open>
  The test \<open>"-" in date_str and date_str[2] == "-"\<close>: the index is read only when a
  dash occurs, and raises on a string shorter than three characters.
\<close>

definition dash_at_2 :: "string \<Rightarrow> py_exn + bool" where
  "dash_at_2 date_str =
     (if CHR ''-'' \<in> set date_str
      then (case char_at date_str 2 of Inl e \<Rightarrow> Inl e | Inr c \<Rightarrow> Inr (c = CHR ''-''))
      else Inr False)"

definition convert_date_for_nclat :: "string \<Rightarrow> py_exn + string" where
  "convert_date_for_nclat date_str =
     (if CHR ''/'' \<in> set date_str then Inr date_str
      else
        (case dash_at_2 date_str of
           Inl e \<Rightarrow> Inl e
         | Inr True \<Rightarrow>
             (case strptime_dmY date_str of
                Inl e \<Rightarrow> Inl e
              | Inr d \<Rightarrow> Inr (strftime_dmY (CHR ''/'') d))
         | Inr False \<Rightarrow>
             (case strptime_Ymd date_str of
                Inl e \<Rightarrow> Inl e
              | Inr d \<Rightarrow> Inr (strftime_dmY (CHR ''/'') d))))"

section \<open>Requests\<close>

text \<open>
  \<open>SearchRequest\<close> and \<open>SearchRangeRequest\<close> both have the fields \<open>partyName\<close> and
  \<open>court\<close>; they are declared once, in \<open>SearchCriteria\<close>, and the two request
  records extend it, so that every field keeps its name.
\<close>

record SearchCriteria =
  partyName :: string
  court :: string

record SearchRequest = SearchCriteria +
  date :: "string option"

record SearchRangeRequest = SearchCriteria +
  startDate :: string
  endDate :: string

record MonitorRequest =
  keyword :: string
  mode :: string
  year :: "string option"

record CercRequest =
  month :: string
  party :: string

section \<open>Backend adapters\<close>

text \<open>
  The scraper modules are outside the repository's core. A call to one of them is a value
  of \<open>call\<close>, and the adapters together are a function from the call to what it does:
  raise, or return a list of records. The records are opaque to \<open>main.py\<close>, which only
  compares them, so their type is a parameter.
\<close>

datatype backend = Supreme | Delhi | Bombay | Nclat | Cerc

datatype call =
    Search backend string string
  | Search_Range backend string string string
  | Monitor backend string string
  | Status_Monitor backend string "string option" string bool

type_synonym 'r backends = "call \<Rightarrow> py_exn + 'r list"

text \<open>What a call adds to \<open>results\<close> under \<open>try: results.extend(...) except Exception\<close>.\<close>

definition contribution :: "'r backends \<Rightarrow> call \<Rightarrow> 'r list" where
  "contribution B c = (case B c of Inl e \<Rightarrow> [] | Inr rs \<Rightarrow> rs)"

text \<open>
  One \<open>try\<close> block of a dispatcher, on the pair of \<open>results\<close> and the calls made so
  far. The arguments are computed inside the block: when that raises, nothing is called.
\<close>

definition attempt :: "'r backends \<Rightarrow> py_exn + call \<Rightarrow> 'r list \<times> call list \<Rightarrow> 'r list \<times> call list" where
  "attempt B args st =
     (case args of
        Inl e \<Rightarrow> st
      | Inr c \<Rightarrow> (fst st @ contribution B c, snd st @ [c]))"

text \<open>Apply a constructor to arguments that may have raised, left to right.\<close>

definition with1 :: "(string \<Rightarrow> call) \<Rightarrow> py_exn + string \<Rightarrow> py_exn + call" where
  "with1 f a = (case a of Inl e \<Rightarrow> Inl e | Inr x \<Rightarrow> Inr (f x))"

definition with2 :: "(string \<Rightarrow> string \<Rightarrow> call) \<Rightarrow> py_exn + string \<Rightarrow> py_exn + string \<Rightarrow> py_exn + call" where
  "with2 f a b =
     (case a of
        Inl e \<Rightarrow> Inl e
      | Inr x \<Rightarrow> (case b of Inl e \<Rightarrow> Inl e | Inr y \<Rightarrow> Inr (f x y)))"

section \<open>Search endpoints\<close>

text \<open>
  Each endpoint returns its reply and, for the proofs, the list of adapter calls it made.
  \<open>not request.date\<close> holds for \<open>None\<close> and for the empty string.
\<close>

definition search_cases :: "'r backends \<Rightarrow> SearchRequest \<Rightarrow> 'r list reply \<times> call list" where
  "search_cases B request =
     (case date request of
        None \<Rightarrow> (Inr [], [])
      | Some dt \<Rightarrow>
          if dt = [] then (Inr [], [])
          else
            let st0 = ([], []);
                st1 = (if court request \<in> set [''supreme'', ''all'']
                       then attempt B (Inr (Search Supreme (partyName request) dt)) st0
                       else st0);
                st2 = (if court request \<in> set [''delhi'', ''all'']
                       then attempt B
                              (with1 (Search Delhi (partyName request))
                                 (if court request = ''all'' then convert_date_for_delhi dt else Inr dt))
                              st1
                       else st1);
                st3 = (if court request \<in> set [''bombay'', ''all'']
                       then attempt B
                              (with1 (Search Bombay (partyName request))
                                 (if court request = ''all'' then convert_date_for_bombay dt else Inr dt))
                              st2
                       else st2);
                st4 = (if court request = ''nclat''
                       then attempt B
                              (with2 (Search_Range Nclat (partyName request))
                                 (convert_date_for_nclat dt) (convert_date_for_nclat dt))
                              st3
                       else st3)
            in (Inr (fst st4), snd st4))"

definition search_cases_range :: "'r backends \<Rightarrow> SearchRangeRequest \<Rightarrow> 'r list reply \<times> call list" where
  "search_cases_range B request =
     (let st0 = ([], []);
          st1 = (if court request \<in> set [''supreme'', ''all'']
                 then attempt B
                        (Inr (Search_Range Supreme (partyName request) (startDate request) (endDate request)))
                        st0
                 else st0);
          st2 = (if court request \<in> set [''delhi'', ''all'']
                 then attempt B
                        (if court request = ''all''
                         then with2 (Search_Range Delhi (partyName request))
                                (convert_date_for_delhi (startDate request))
                                (convert_date_for_delhi (endDate request))
                         else Inr (Search_Range Delhi (partyName request) (startDate request) (endDate request)))
                        st1
                 else st1);
          st3 = (if court request \<in> set [''bombay'', ''all'']
                 then attempt B
                        (if court request = ''all''
                         then with2 (Search_Range Bombay (partyName request))
                                (convert_date_for_bombay (startDate request))
                                (convert_date_for_bombay (endDate request))
                         else Inr (Search_Range Bombay (partyName request) (startDate request) (endDate request)))
                        st2
                 else st2);
          st4 = (if court request = ''nclat''
                 then attempt B
                        (with2 (Search_Range Nclat (partyName request))
                           (convert_date_for_nclat (startDate request))
                           (convert_date_for_nclat (endDate request)))
                        st3
                 else st3)
      in (Inr (fst st4), snd st4))"

section \<open>Snapshot files\<close>

text \<open>
  The file system is the environment of \<open>supreme_monitor\<close>. \<open>locate\<close> is its name
  resolution: the file a path names, or the exception \<open>open\<close> raises for that path (a
  directory that does not exist, an embedded NUL, a name that is too long); two paths
  may name one file. \<open>stored\<close> gives, for each file that exists, what \<open>open\<close> and
  \<open>json.load\<close> return for it: the document, a list of records, or the exception of a
  file that cannot be read. \<open>read_only\<close> marks the files that cannot be opened for
  writing. A document read back is the list that was written, and \<open>json.dump\<close> itself
  does not fail. \<open>fs_event\<close> records each call of \<open>open\<close>.
\<close>

type_synonym node = string

record 'r filesystem =
  locate :: "string \<Rightarrow> py_exn + node"
  stored :: "node \<rightharpoonup> py_exn + 'r list"
  read_only :: "node \<Rightarrow> bool"

datatype fs_event = Read_File string | Write_File string

text \<open>\<open>os.path.exists(path)\<close>, which is false for a path that cannot be resolved.\<close>

definition path_exists :: "'r filesystem \<Rightarrow> string \<Rightarrow> bool" where
  "path_exists fs path =
     (case locate fs path of Inl e \<Rightarrow> False | Inr n \<Rightarrow> stored fs n \<noteq> None)"

text \<open>\<open>with open(path, "r") as f: json.load(f)\<close>\<close>

definition json_load :: "'r filesystem \<Rightarrow> string \<Rightarrow> py_exn + 'r list" where
  "json_load fs path =
     (case locate fs path of
        Inl e \<Rightarrow> Inl e
      | Inr n \<Rightarrow> (case stored fs n of None \<Rightarrow> Inl OSError | Some r \<Rightarrow> r))"

text \<open>\<open>with open(path, "w") as f: json.dump(data, f)\<close>\<close>

definition json_dump :: "'r filesystem \<Rightarrow> string \<Rightarrow> 'r list \<Rightarrow> py_exn + 'r filesystem" where
  "json_dump fs path data =
     (case locate fs path of
        Inl e \<Rightarrow> Inl e
      | Inr n \<Rightarrow>
          if read_only fs n then Inl OSError
          else Inr (fs\<lparr>stored := (stored fs)(n \<mapsto> Inr data)\<rparr>))"

definition DATA_DIR :: string where
  "DATA_DIR = ''monitor_data''"

text \<open>\<open>os.path.join(a, b)\<close> of \<open>posixpath\<close>.\<close>

definition os_path_join :: "string \<Rightarrow> string \<Rightarrow> string" where
  "os_path_join a b =
     (if b \<noteq> [] \<and> hd b = CHR ''/'' then b
      else if a = [] \<or> last a = CHR ''/'' then a @ b
      else a @ ''/'' @ b)"

text \<open>\<open>str.isspace\<close> of a one-character string, for code points below 256.\<close>

definition py_isspace :: "char \<Rightarrow> bool" where
  "py_isspace c = ((of_char c :: nat) \<in> set [9, 10, 11, 12, 13, 28, 29, 30, 31, 32, 133, 160])"

definition strip :: "string \<Rightarrow> string" where
  "strip s = rev (dropWhile py_isspace (rev (dropWhile py_isspace s)))"

text \<open>\<open>s.replace(old, new)\<close> for one-character \<open>old\<close> and \<open>new\<close>.\<close>

definition replace :: "string \<Rightarrow> char \<Rightarrow> char \<Rightarrow> string" where
  "replace s old new = map (\<lambda>c. if c = old then new else c) s"

text \<open>The file name \<open>f"{keyword.replace(' ', '_')}_{mode}.json"\<close>, of the stripped keyword.\<close>

definition monitor_filename :: "string \<Rightarrow> string \<Rightarrow> string" where
  "monitor_filename kw md = replace kw (CHR '' '') (CHR ''_'') @ ''_'' @ md @ ''.json''"

section \<open>Monitor and commission endpoints\<close>

text \<open>
  The two dictionaries \<open>supreme_monitor\<close> returns; \<open>status\<close> gives the value under the
  key of that name.
\<close>

datatype 'r monitor_response =
    No_Change string nat string
  | Updated string "'r list" nat string


record 'r monitor_outcome =
  reply :: "'r monitor_response reply"
  files :: "'r filesystem"
  events :: "fs_event list"
  calls :: "call list"

definition supreme_monitor :: "'r backends \<Rightarrow> 'r filesystem \<Rightarrow> MonitorRequest \<Rightarrow> 'r monitor_outcome" where
  "supreme_monitor B fs req =
     (let keyword = strip (keyword req);
          mode = mode req;
          c = Monitor Supreme keyword mode
      in case B c of
           Inl e \<Rightarrow> \<lparr>reply = Inl e, files = fs, events = [], calls = [c]\<rparr>
         | Inr all_results \<Rightarrow>
             let filename = monitor_filename keyword mode;
                 path = os_path_join DATA_DIR filename;
                 reads = (if path_exists fs path then [Read_File path] else [])
             in case (if path_exists fs path then json_load fs path else Inr []) of
                  Inl e \<Rightarrow> \<lparr>reply = Inl e, files = fs, events = reads, calls = [c]\<rparr>
                | Inr old_data \<Rightarrow>
                    if old_data = all_results
                    then \<lparr>reply = Inr (No_Change ''No new updates'' (length all_results) filename),
                          files = fs, events = reads, calls = [c]\<rparr>
                    else
                      let new_items = filter (\<lambda>x. x \<notin> set old_data) all_results
                      in case json_dump fs path all_results of
                           Inl e \<Rightarrow>
                             \<lparr>reply = Inl e, files = fs,
                              events = reads @ [Write_File path], calls = [c]\<rparr>
                         | Inr fs' \<Rightarrow>
                             \<lparr>reply = Inr (Updated ''New judgments found'' new_items
                                            (length all_results) filename),
                              files = fs',
                              events = reads @ [Write_File path], calls = [c]\<rparr>)"

text \<open>\<open>delhi_monitor\<close> keeps no snapshot: the adapter's list, or the empty list when it raises.\<close>

definition delhi_monitor :: "'r backends \<Rightarrow> MonitorRequest \<Rightarrow> 'r list reply \<times> call list" where
  "delhi_monitor B req =
     (let keyword = strip (keyword req);
          mode = mode req;
          year = year req;
          c = Status_Monitor Delhi keyword year mode True
      in case B c of
           Inl e \<Rightarrow> (Inr [], [c])
         | Inr results \<Rightarrow> (Inr results, [c]))"

record 'r cerc_response =
  results :: "'r list"
  count :: nat

definition cerc_search :: "'r backends \<Rightarrow> CercRequest \<Rightarrow> 'r cerc_response reply \<times> call list" where
  "cerc_search B req =
     (let c = Search Cerc (month req) (party req)
      in case B c of
           Inr data \<Rightarrow> (Inr \<lparr>results = data, count = length data\<rparr>, [c])
         | Inl e \<Rightarrow> (Inr \<lparr>results = [], count = 0\<rparr>, [c]))"

section \<open>Example adapters\<close>

text \<open>
  Three adapter sets with records that are strings, for the concrete cases below: one
  that finds nothing, one whose every call raises, and one where the Delhi search times
  out while the others answer.
\<close>

definition quiet :: "string backends" where
  "quiet c = Inr []"

definition down :: "string backends" where
  "down c = Inl (BackendError ''down'')"

definition sample :: "string backends" where
  "sample c =
     (case c of
        Search b p d \<Rightarrow> if b = Delhi then Inl (BackendError ''timeout'') else Inr [''hit'']
      | Search_Range b p s e \<Rightarrow> Inr [''hit'']
      | Monitor b k m \<Rightarrow> Inr [''a'', ''b'', ''c'']
      | Status_Monitor b k y m h \<Rightarrow> Inr [])"

text \<open>
  An example file system: a working directory in which \<open>main.py\<close> has created
  \<open>monitor_data\<close> and \<open>downloaded_judgments\<close> (lines 103 and 104) and nothing else
  exists, with no access outside it. A path is resolved component by component; each
  directory on the way must exist, and the last component must be a file name of at most
  255 characters. The file is named by its path from the working directory.
\<close>

fun split_path :: "string \<Rightarrow> string list" where
  "split_path [] = [[]]"
| "split_path (c # cs) =
     (if c = CHR ''/'' then [] # split_path cs
      else (case split_path cs of [] \<Rightarrow> [[c]] | w # ws \<Rightarrow> (c # w) # ws))"

fun join_path :: "string list \<Rightarrow> string" where
  "join_path [] = []"
| "join_path [x] = x"
| "join_path (x # y # ys) = x @ ''/'' @ join_path (y # ys)"

definition sandbox_dirs :: "string list list" where
  "sandbox_dirs = [[], [''monitor_data''], [''downloaded_judgments'']]"

fun walk :: "string list \<Rightarrow> string list \<Rightarrow> py_exn + string list" where
  "walk cur [] = Inl OSError"
| "walk cur [name] =
     (if name \<in> set [[], ''.'', ''..''] \<or> cur @ [name] \<in> set sandbox_dirs \<or> 255 < length name
      then Inl OSError
      else Inr (cur @ [name]))"
| "walk cur (d # ds) =
     (if d \<in> set [[], ''.''] then walk cur ds
      else if d = ''..'' then (if cur = [] then Inl OSError else walk (butlast cur) ds)
      else if cur @ [d] \<in> set sandbox_dirs then walk (cur @ [d]) ds
      else Inl OSError)"

definition sandbox_locate :: "string \<Rightarrow> py_exn + node" where
  "sandbox_locate path =
     (if CHR 0x00 \<in> set path then Inl ValueError
      else if path \<noteq> [] \<and> hd path = CHR ''/'' then Inl OSError
      else (case walk [] (split_path path) of
              Inl e \<Rightarrow> Inl e
            | Inr names \<Rightarrow> Inr (join_path names)))"

text \<open>The example file system holding the given documents, all of them writable.\<close>

definition sandbox :: "(node \<times> string list) list \<Rightarrow> string filesystem" where
  "sandbox docs =
     \<lparr>locate = sandbox_locate,
      stored = map_of (map (\<lambda>(n, d). (n, Inr d)) docs),
      read_only = (\<lambda>n. False)\<rparr>"

text \<open>A monitor request for the keyword \<open>acme\<close> in the default mode.\<close>

definition acme_request :: MonitorRequest where
  "acme_request = \<lparr>keyword = ''acme'', mode = ''party'', year = None\<rparr>"

text \<open>A call to a single-date \<open>search\<close> entry point.\<close>

definition is_search :: "call \<Rightarrow> bool" where
  "is_search c = (case c of Search b p d \<Rightarrow> True | _ \<Rightarrow> False)"

section \<open>The tribunal date normaliser\<close>

lemma strftime_has_sep: "sep \<in> set (strftime_dmY sep d)"
  by (cases d) (simp add: strftime_dmY_def)

lemma nclat_output_has_slash:
  "convert_date_for_nclat s = Inr t \<Longrightarrow> CHR ''/'' \<in> set t"
  by (auto simp: convert_date_for_nclat_def strftime_has_sep
           split: if_splits sum.splits bool.splits)

lemma nclat_passthrough: "CHR ''/'' \<in> set t \<Longrightarrow> convert_date_for_nclat t = Inr t"
  by (simp add: convert_date_for_nclat_def)

lemma nclat_iso_example: "convert_date_for_nclat ''2024-03-05'' = Inr ''05/03/2024''"
  by code_simp

lemma nclat_dmy_example: "convert_date_for_nclat ''05-03-2024'' = Inr ''05/03/2024''"
  by code_simp

text \<open>
  C8. The tribunal normaliser maps \<open>2024-03-05\<close> and \<open>05-03-2024\<close> to \<open>05/03/2024\<close> and
  returns \<open>05/03/2024\<close> unchanged; applied to any string it has returned, it returns that
  string unchanged.
\<close>

theorem convert_date_for_nclat_idempotent:
  "convert_date_for_nclat ''2024-03-05'' = Inr ''05/03/2024'' \<and>
   convert_date_for_nclat ''05-03-2024'' = Inr ''05/03/2024'' \<and>
   convert_date_for_nclat ''05/03/2024'' = Inr ''05/03/2024'' \<and>
   (\<forall>s t. convert_date_for_nclat s = Inr t \<longrightarrow> convert_date_for_nclat t = Inr t)"
proof -
  have "\<forall>s t. convert_date_for_nclat s = Inr t \<longrightarrow> convert_date_for_nclat t = Inr t"
    using nclat_output_has_slash nclat_passthrough by blast
  moreover have "convert_date_for_nclat ''05/03/2024'' = Inr ''05/03/2024''"
    by (rule nclat_passthrough) simp
  ultimately show ?thesis
    using nclat_iso_example nclat_dmy_example by blast
qed

theorem convert_date_for_nclat_idempotent_witness:
  "convert_date_for_nclat ''05-03-2024'' = Inr ''05/03/2024'' \<and>
   convert_date_for_nclat ''05/03/2024'' = Inr ''05/03/2024''"
  using convert_date_for_nclat_idempotent by blast

section \<open>Failure isolation in the dispatchers\<close>

lemma attempt_calls:
  "snd (attempt B a st) = snd st @ (case a of Inl e \<Rightarrow> [] | Inr c \<Rightarrow> [c])"
  by (simp add: attempt_def split: sum.splits)

lemma attempt_merge:
  "fst st = concat (map (contribution B) (snd st)) \<Longrightarrow>
   fst (attempt B a st) = concat (map (contribution B) (snd (attempt B a st)))"
  by (simp add: attempt_def split: sum.splits)

lemma search_cases_calls_indep:
  "snd (search_cases B request) = snd (search_cases B' request)"
  by (simp add: search_cases_def Let_def attempt_calls split: option.splits)

lemma search_cases_range_calls_indep:
  "snd (search_cases_range B request) = snd (search_cases_range B' request)"
  by (simp add: search_cases_range_def Let_def attempt_calls)

lemma search_cases_merge:
  "fst (search_cases B request) =
   Inr (concat (map (contribution B) (snd (search_cases B request))))"
  by (simp add: search_cases_def Let_def attempt_merge split: option.splits)

lemma search_cases_range_merge:
  "fst (search_cases_range B request) =
   Inr (concat (map (contribution B) (snd (search_cases_range B request))))"
  by (simp add: search_cases_range_def Let_def attempt_merge)

lemma contribution_raise: "B c = Inl e \<Longrightarrow> contribution B c = []"
  by (simp add: contribution_def)

lemma contribution_all_raise:
  assumes "\<forall>c. \<exists>e. B c = Inl e"
  shows "concat (map (contribution B) cs) = []"
proof (induction cs)
  case Nil
  show ?case by simp
next
  case (Cons c cs)
  from assms obtain e where "B c = Inl e" by blast
  with Cons show ?case by (simp add: contribution_raise)
qed

text \<open>
  C2. In both dispatchers the adapter calls made do not depend on what any adapter does
  (so a raise never keeps a later adapter from being called), the reply is the
  concatenation of what each call contributes, a call that raises contributes nothing,
  and when every adapter raises the reply is the empty list, returned normally.
\<close>

theorem backend_failure_isolated:
  "snd (search_cases B request) = snd (search_cases B' request) \<and>
   snd (search_cases_range B range_request) = snd (search_cases_range B' range_request) \<and>
   fst (search_cases B request) =
     Inr (concat (map (contribution B) (snd (search_cases B request)))) \<and>
   fst (search_cases_range B range_request) =
     Inr (concat (map (contribution B) (snd (search_cases_range B range_request)))) \<and>
   (\<forall>c e. B c = Inl e \<longrightarrow> contribution B c = []) \<and>
   ((\<forall>c. \<exists>e. B c = Inl e) \<longrightarrow>
      fst (search_cases B request) = Inr [] \<and>
      fst (search_cases_range B range_request) = Inr [])"
proof -
  have "fst (search_cases B request) = Inr []
        \<and> fst (search_cases_range B range_request) = Inr []"
    if "\<forall>c. \<exists>e. B c = Inl e"
    using that search_cases_merge [of B request]
      search_cases_range_merge [of B range_request]
    by (simp add: contribution_all_raise)
  then show ?thesis
    using search_cases_calls_indep [of B request B']
      search_cases_range_calls_indep [of B range_request B']
      search_cases_merge [of B request] search_cases_range_merge [of B range_request]
    by (simp add: contribution_raise)
qed

theorem backend_failure_isolated_witness:
  "(\<forall>c. \<exists>e. down c = Inl e) \<and>
   search_cases down \<lparr>partyName = ''acme'', court = ''all'', date = Some ''2024-03-05''\<rparr> =
     (Inr [], [Search Supreme ''acme'' ''2024-03-05'', Search Delhi ''acme'' ''05.03.2024'',
               Search Bombay ''acme'' ''05-03-2024'']) \<and>
   search_cases sample \<lparr>partyName = ''acme'', court = ''all'', date = Some ''2024-03-05''\<rparr> =
     (Inr [''hit'', ''hit''],
      [Search Supreme ''acme'' ''2024-03-05'', Search Delhi ''acme'' ''05.03.2024'',
       Search Bombay ''acme'' ''05-03-2024'']) \<and>
   fst (search_cases_range down
     \<lparr>partyName = ''acme'', court = ''all'', startDate = ''2024-03-05'', endDate = ''2024-03-06''\<rparr>) =
     Inr []"
proof -
  let ?rq = "\<lparr>partyName = ''acme'', court = ''all'', date = Some ''2024-03-05''\<rparr>"
  let ?rr = "\<lparr>partyName = ''acme'', court = ''all'', startDate = ''2024-03-05'',
              endDate = ''2024-03-06''\<rparr>"
  have d: "\<forall>c. \<exists>e. down c = Inl e"
    by (simp add: down_def)
  have s: "search_cases sample ?rq =
     (Inr [''hit'', ''hit''],
      [Search Supreme ''acme'' ''2024-03-05'', Search Delhi ''acme'' ''05.03.2024'',
       Search Bombay ''acme'' ''05-03-2024''])"
    by code_simp
  have "snd (search_cases down ?rq) = snd (search_cases sample ?rq)"
    using backend_failure_isolated [of down ?rq sample ?rr] by blast
  moreover have "fst (search_cases down ?rq) = Inr [] \<and> fst (search_cases_range down ?rr) = Inr []"
    using backend_failure_isolated [of down ?rq down ?rr] d by blast
  ultimately show ?thesis
    using d s by (simp add: prod_eq_iff)
qed

section \<open>Unknown court selectors\<close>

text \<open>
  C10. A single-date or range request whose court selector is none of \<open>supreme\<close>,
  \<open>delhi\<close>, \<open>bombay\<close>, \<open>nclat\<close> and \<open>all\<close> gets the empty list, returned normally, and
  no adapter is called.
\<close>

theorem unknown_court_empty:
  "(court request \<notin> set [''supreme'', ''delhi'', ''bombay'', ''nclat'', ''all''] \<longrightarrow>
      search_cases B request = (Inr [], [])) \<and>
   (court range_request \<notin> set [''supreme'', ''delhi'', ''bombay'', ''nclat'', ''all''] \<longrightarrow>
      search_cases_range B range_request = (Inr [], []))"
  by (simp add: search_cases_def search_cases_range_def Let_def split: option.splits)

theorem unknown_court_empty_witness:
  "''cerc'' \<notin> set [''supreme'', ''delhi'', ''bombay'', ''nclat'', ''all''] \<and>
   search_cases sample \<lparr>partyName = ''acme'', court = ''cerc'', date = Some ''2024-03-05''\<rparr> =
     (Inr [], []) \<and>
   search_cases_range sample
     \<lparr>partyName = ''acme'', court = ''cerc'', startDate = ''2024-03-05'', endDate = ''2024-03-06''\<rparr> =
     (Inr [], [])"
  using unknown_court_empty [of "\<lparr>partyName = ''acme'', court = ''cerc'', date = Some ''2024-03-05''\<rparr>"
      sample
      "\<lparr>partyName = ''acme'', court = ''cerc'', startDate = ''2024-03-05'', endDate = ''2024-03-06''\<rparr>"]
  by simp

section \<open>Dates handed to the adapters\<close>

lemma delhi_example: "convert_date_for_delhi ''2024-03-05'' = Inr ''05.03.2024''"
  by code_simp

lemma delhi_example_end: "convert_date_for_delhi ''2024-03-06'' = Inr ''06.03.2024''"
  by code_simp

lemma bombay_example: "convert_date_for_bombay ''2024-03-05'' = Inr ''05-03-2024''"
  by code_simp

lemma bombay_example_end: "convert_date_for_bombay ''2024-03-06'' = Inr ''06-03-2024''"
  by code_simp

lemma nclat_short_example: "convert_date_for_nclat ''2024-3-5'' = Inr ''05/03/2024''"
  by code_simp

text \<open>
  With the court \<open>nclat\<close> an ISO date does not reach the tribunal adapter as the caller
  gave it: both dispatchers pass it through \<open>convert_date_for_nclat\<close> first.
\<close>

theorem nclat_date_counterexample:
  "snd (search_cases quiet \<lparr>partyName = ''acme'', court = ''nclat'', date = Some ''2024-03-05''\<rparr>) =
     [Search_Range Nclat ''acme'' ''05/03/2024'' ''05/03/2024''] \<and>
   snd (search_cases_range quiet
     \<lparr>partyName = ''acme'', court = ''nclat'', startDate = ''2024-03-05'', endDate = ''06-03-2024''\<rparr>) =
     [Search_Range Nclat ''acme'' ''05/03/2024'' ''06/03/2024'']"
  by code_simp

text \<open>
  C3, as the code has it. With the court \<open>all\<close> the Supreme Court adapter receives the
  caller's date(s) unchanged, and the Delhi and Bombay adapters receive them converted
  to \<open>DD.MM.YYYY\<close> and \<open>DD-MM-YYYY\<close> (an adapter whose date does not convert is not
  called). With the court \<open>supreme\<close>, \<open>delhi\<close> or \<open>bombay\<close> that adapter receives the
  date(s) exactly as given. With the court \<open>nclat\<close> the date(s) always go through the
  tribunal normaliser, which returns unchanged only input that contains a slash.
\<close>

theorem dispatch_dates:
  "(date request = Some dt \<and> dt \<noteq> [] \<longrightarrow>
      (court request = ''all'' \<longrightarrow>
         snd (search_cases B request) =
           [Search Supreme (partyName request) dt] @
           (case convert_date_for_delhi dt of Inl e \<Rightarrow> [] | Inr x \<Rightarrow> [Search Delhi (partyName request) x]) @
           (case convert_date_for_bombay dt of Inl e \<Rightarrow> [] | Inr x \<Rightarrow> [Search Bombay (partyName request) x])) \<and>
      (court request = ''supreme'' \<longrightarrow>
         snd (search_cases B request) = [Search Supreme (partyName request) dt]) \<and>
      (court request = ''delhi'' \<longrightarrow>
         snd (search_cases B request) = [Search Delhi (partyName request) dt]) \<and>
      (court request = ''bombay'' \<longrightarrow>
         snd (search_cases B request) = [Search Bombay (partyName request) dt]) \<and>
      (court request = ''nclat'' \<longrightarrow>
         snd (search_cases B request) =
           (case convert_date_for_nclat dt of
              Inl e \<Rightarrow> [] | Inr x \<Rightarrow> [Search_Range Nclat (partyName request) x x]))) \<and>
   (court rr = ''all'' \<longrightarrow>
      snd (search_cases_range B rr) =
        [Search_Range Supreme (partyName rr) (startDate rr) (endDate rr)] @
        (case (convert_date_for_delhi (startDate rr), convert_date_for_delhi (endDate rr)) of
           (Inr x, Inr y) \<Rightarrow> [Search_Range Delhi (partyName rr) x y] | _ \<Rightarrow> []) @
        (case (convert_date_for_bombay (startDate rr), convert_date_for_bombay (endDate rr)) of
           (Inr x, Inr y) \<Rightarrow> [Search_Range Bombay (partyName rr) x y] | _ \<Rightarrow> [])) \<and>
   (court rr = ''supreme'' \<longrightarrow>
      snd (search_cases_range B rr) = [Search_Range Supreme (partyName rr) (startDate rr) (endDate rr)]) \<and>
   (court rr = ''delhi'' \<longrightarrow>
      snd (search_cases_range B rr) = [Search_Range Delhi (partyName rr) (startDate rr) (endDate rr)]) \<and>
   (court rr = ''bombay'' \<longrightarrow>
      snd (search_cases_range B rr) = [Search_Range Bombay (partyName rr) (startDate rr) (endDate rr)]) \<and>
   (court rr = ''nclat'' \<longrightarrow>
      snd (search_cases_range B rr) =
        (case (convert_date_for_nclat (startDate rr), convert_date_for_nclat (endDate rr)) of
           (Inr x, Inr y) \<Rightarrow> [Search_Range Nclat (partyName rr) x y] | _ \<Rightarrow> []))"
  by (simp add: search_cases_def search_cases_range_def Let_def attempt_calls with1_def with2_def
           split: sum.splits)

theorem dispatch_dates_witness:
  "snd (search_cases sample \<lparr>partyName = ''acme'', court = ''all'', date = Some ''2024-03-05''\<rparr>) =
     [Search Supreme ''acme'' ''2024-03-05'', Search Delhi ''acme'' ''05.03.2024'',
      Search Bombay ''acme'' ''05-03-2024''] \<and>
   snd (search_cases_range sample
     \<lparr>partyName = ''acme'', court = ''all'', startDate = ''2024-03-05'', endDate = ''2024-03-06''\<rparr>) =
     [Search_Range Supreme ''acme'' ''2024-03-05'' ''2024-03-06'',
      Search_Range Delhi ''acme'' ''05.03.2024'' ''06.03.2024'',
      Search_Range Bombay ''acme'' ''05-03-2024'' ''06-03-2024'']"
  using dispatch_dates
    [where request = "\<lparr>partyName = ''acme'', court = ''all'', date = Some ''2024-03-05''\<rparr>"
       and dt = "''2024-03-05''" and B = sample
       and rr = "\<lparr>partyName = ''acme'', court = ''all'', startDate = ''2024-03-05'',
                  endDate = ''2024-03-06''\<rparr>"]
  by (simp add: delhi_example delhi_example_end bombay_example bombay_example_end)

section \<open>Entry points used by the single-date dispatcher\<close>

text \<open>
  A single-date request for the court \<open>nclat\<close> calls the tribunal's \<open>search_range\<close>.
\<close>

theorem nclat_single_date_counterexample:
  "snd (search_cases sample \<lparr>partyName = ''acme'', court = ''nclat'', date = Some ''05/03/2024''\<rparr>) =
     [Search_Range Nclat ''acme'' ''05/03/2024'' ''05/03/2024''] \<and>
   \<not> is_search (Search_Range Nclat ''acme'' ''05/03/2024'' ''05/03/2024'')"
  by code_simp

text \<open>
  C4, as the code has it. A single-date request for any court other than \<open>nclat\<close>
  calls only \<open>search\<close> entry points. For the court \<open>nclat\<close> the dispatcher calls the
  tribunal's \<open>search_range\<close> once, with the normalised date as both start and end, and
  calls nothing when the date does not normalise.
\<close>

theorem single_date_entry_points:
  "(court request \<noteq> ''nclat'' \<longrightarrow> list_all is_search (snd (search_cases B request))) \<and>
   (court request = ''nclat'' \<and> date request = Some dt \<and> dt \<noteq> [] \<longrightarrow>
      snd (search_cases B request) =
        (case convert_date_for_nclat dt of
           Inl e \<Rightarrow> [] | Inr x \<Rightarrow> [Search_Range Nclat (partyName request) x x]))"
  by (simp add: search_cases_def Let_def attempt_calls with1_def with2_def is_search_def
           split: sum.splits option.splits)

theorem single_date_entry_points_witness:
  "list_all is_search
     (snd (search_cases sample \<lparr>partyName = ''acme'', court = ''all'', date = Some ''2024-03-05''\<rparr>)) \<and>
   snd (search_cases sample \<lparr>partyName = ''acme'', court = ''nclat'', date = Some ''2024-3-5''\<rparr>) =
     [Search_Range Nclat ''acme'' ''05/03/2024'' ''05/03/2024'']"
  using single_date_entry_points
    [where request = "\<lparr>partyName = ''acme'', court = ''all'', date = Some ''2024-03-05''\<rparr>"
       and B = sample and dt = "''2024-03-05''"]
    single_date_entry_points
    [where request = "\<lparr>partyName = ''acme'', court = ''nclat'', date = Some ''2024-3-5''\<rparr>"
       and B = sample and dt = "''2024-3-5''"]
  by (simp add: nclat_short_example)

section \<open>Dates that do not parse\<close>

text \<open>
  With the court \<open>all\<close> the Delhi and Bombay conversions parse the same ISO date, so
  they raise together, exactly when \<open>strptime\<close> does.
\<close>

lemma delhi_fails_iff: "convert_date_for_delhi s = Inl e \<longleftrightarrow> strptime_Ymd s = Inl e"
  by (simp add: convert_date_for_delhi_def split: sum.splits)

lemma bombay_fails_iff: "convert_date_for_bombay s = Inl e \<longleftrightarrow> strptime_Ymd s = Inl e"
  by (simp add: convert_date_for_bombay_def split: sum.splits)

lemma slash_date_not_iso: "strptime_Ymd ''2024/03/05'' = Inl ValueError"
  by code_simp

lemma words_not_a_date: "convert_date_for_nclat ''March'' = Inl ValueError"
  by code_simp

text \<open>
  A date that is not in ISO form, sent with the court \<open>all\<close>, or one the tribunal
  normaliser rejects, sent with the court \<open>nclat\<close>, still gets a normal reply.
\<close>

theorem invalid_date_counterexample:
  "convert_date_for_delhi ''05-03-2024'' = Inl ValueError \<and>
   convert_date_for_bombay ''05-03-2024'' = Inl ValueError \<and>
   search_cases sample \<lparr>partyName = ''acme'', court = ''all'', date = Some ''05-03-2024''\<rparr> =
     (Inr [''hit''], [Search Supreme ''acme'' ''05-03-2024'']) \<and>
   convert_date_for_nclat ''5 March 2024'' = Inl ValueError \<and>
   search_cases sample \<lparr>partyName = ''acme'', court = ''nclat'', date = Some ''5 March 2024''\<rparr> =
     (Inr [], []) \<and>
   search_cases_range sample
     \<lparr>partyName = ''acme'', court = ''nclat'', startDate = ''5 March 2024'', endDate = ''2024-03-06''\<rparr> =
     (Inr [], [])"
  by code_simp

text \<open>
  C6, as the code has it. Both dispatchers always reply normally. A date that cannot be
  normalised raises inside the \<open>try\<close> block of the adapter it was meant for: that
  adapter is not called and adds no record. With the court \<open>all\<close> and a date that is
  not ISO the reply is what the Supreme Court adapter contributes, and with the court
  \<open>nclat\<close> and a date the tribunal normaliser rejects the reply is the empty list.
\<close>

theorem invalid_date_swallowed:
  "(\<exists>rs. fst (search_cases B request) = Inr rs) \<and>
   (\<exists>rs. fst (search_cases_range B rr) = Inr rs) \<and>
   (date request = Some dt \<and> dt \<noteq> [] \<and> court request = ''all'' \<and> strptime_Ymd dt = Inl e \<longrightarrow>
      search_cases B request =
        (Inr (contribution B (Search Supreme (partyName request) dt)),
         [Search Supreme (partyName request) dt])) \<and>
   (date request = Some dt \<and> dt \<noteq> [] \<and> court request = ''nclat'' \<and> convert_date_for_nclat dt = Inl e \<longrightarrow>
      search_cases B request = (Inr [], [])) \<and>
   (court rr = ''all'' \<and> (strptime_Ymd (startDate rr) = Inl e \<or> strptime_Ymd (endDate rr) = Inl e) \<longrightarrow>
      search_cases_range B rr =
        (Inr (contribution B (Search_Range Supreme (partyName rr) (startDate rr) (endDate rr))),
         [Search_Range Supreme (partyName rr) (startDate rr) (endDate rr)])) \<and>
   (court rr = ''nclat'' \<and>
      (convert_date_for_nclat (startDate rr) = Inl e \<or> convert_date_for_nclat (endDate rr) = Inl e) \<longrightarrow>
      search_cases_range B rr = (Inr [], []))"
  by (auto simp: search_cases_def search_cases_range_def Let_def attempt_def with1_def with2_def
             convert_date_for_delhi_def convert_date_for_bombay_def
           split: sum.splits option.splits)

theorem invalid_date_swallowed_witness:
  "strptime_Ymd ''2024/03/05'' = Inl ValueError \<and>
   search_cases sample \<lparr>partyName = ''acme'', court = ''all'', date = Some ''2024/03/05''\<rparr> =
     (Inr [''hit''], [Search Supreme ''acme'' ''2024/03/05'']) \<and>
   convert_date_for_nclat ''March'' = Inl ValueError \<and>
   search_cases_range sample
     \<lparr>partyName = ''acme'', court = ''nclat'', startDate = ''March'', endDate = ''05/03/2024''\<rparr> =
     (Inr [], [])"
  using invalid_date_swallowed
    [where B = sample
       and request = "\<lparr>partyName = ''acme'', court = ''all'', date = Some ''2024/03/05''\<rparr>"
       and rr = "\<lparr>partyName = ''acme'', court = ''nclat'', startDate = ''March'',
                  endDate = ''05/03/2024''\<rparr>"
       and dt = "''2024/03/05''" and e = ValueError]
    slash_date_not_iso words_not_a_date
  by (simp add: contribution_def sample_def)

section \<open>The top-court monitor\<close>


lemma json_dump_frame:
  "json_dump fs p d = Inr fs' \<Longrightarrow> locate fs p \<noteq> Inr n \<Longrightarrow> stored fs' n = stored fs n"
  by (auto simp: json_dump_def split: sum.splits if_splits)










section \<open>Life cycle of a snapshot\<close>




section \<open>Adapters that raise\<close>

text \<open>
  What each of the three endpoints does when its adapter call raises: the commission
  search and the Delhi status monitor catch the exception and reply with an empty
  result; \<open>supreme_monitor\<close> has no \<open>try\<close> and the exception escapes.
\<close>

lemma adapter_raise_endpoints:
  "(B (Search Cerc (month creq) (party creq)) = Inl e \<longrightarrow>
      fst (cerc_search B creq) = Inr \<lparr>results = [], count = 0\<rparr>) \<and>
   (B (Status_Monitor Delhi (strip (keyword req)) (year req) (mode req) True) = Inl e \<longrightarrow>
      fst (delhi_monitor B req) = Inr []) \<and>
   (B (Monitor Supreme (strip (keyword req)) (mode req)) = Inl e \<longrightarrow>
      reply (supreme_monitor B fs req) = Inl e \<and>
      files (supreme_monitor B fs req) = fs \<and>
      events (supreme_monitor B fs req) = [])"
  by (simp add: cerc_search_def delhi_monitor_def supreme_monitor_def Let_def)

text \<open>
  C5. With an adapter that raises, the top-court monitor does not reply with an empty
  result: the exception reaches the caller. The Delhi status monitor and the commission
  search, given the same adapter, reply normally with nothing found.
\<close>

theorem supreme_monitor_raise_escapes:
  "down (Monitor Supreme (strip (keyword acme_request)) (mode acme_request)) =
     Inl (BackendError ''down'') \<and>
   reply (supreme_monitor down (sandbox []) acme_request) = Inl (BackendError ''down'') \<and>
   fst (delhi_monitor down acme_request) = Inr [] \<and>
   fst (cerc_search down \<lparr>month = ''2024-03'', party = ''acme''\<rparr>) =
     Inr \<lparr>results = [], count = 0\<rparr>"
  by code_simp

section \<open>The snapshot file of a keyword\<close>

lemma strip_pad:
  assumes "list_all py_isspace l" and "list_all py_isspace r"
  shows "strip (l @ k @ r) = strip k"
proof -
  have l: "\<And>x. x \<in> set l \<Longrightarrow> py_isspace x" and r: "\<And>x. x \<in> set r \<Longrightarrow> py_isspace x"
    using assms by (simp_all add: list_all_iff)
  have 1: "dropWhile py_isspace (l @ k @ r) = dropWhile py_isspace (k @ r)"
    using l by (simp add: dropWhile_append2)
  show ?thesis
  proof (cases "\<forall>c\<in>set k. py_isspace c")
    case True
    have a: "dropWhile py_isspace (k @ r) = []"
      using True r by simp
    have b: "dropWhile py_isspace k = []"
      using True by simp
    show ?thesis unfolding strip_def 1 a b by simp
  next
    case False
    then obtain x where "x \<in> set k" and "\<not> py_isspace x" by blast
    then have 2: "dropWhile py_isspace (k @ r) = dropWhile py_isspace k @ r"
      by (simp add: dropWhile_append1)
    have 3: "dropWhile py_isspace (rev r @ rev (dropWhile py_isspace k))
                   = dropWhile py_isspace (rev (dropWhile py_isspace k))"
      by (rule dropWhile_append2) (simp add: r)
    show ?thesis unfolding strip_def 1 2 rev_append 3 by simp
  qed
qed

lemma strip_acme_ltd: "strip ''acme ltd'' = ''acme ltd'' \<and> strip ''acme_ltd'' = ''acme_ltd''"
  by code_simp

lemma acme_ltd_path:
  "os_path_join DATA_DIR (replace ''acme ltd'' (CHR '' '') (CHR ''_'') @ ''_'' @ ''party'' @ ''.json'') =
   ''monitor_data/acme_ltd_party.json''"
  by code_simp

lemma acme_ltd_replace:
  "replace ''acme ltd'' (CHR '' '') (CHR ''_'') = replace ''acme_ltd'' (CHR '' '') (CHR ''_'')"
  by code_simp

lemma blanks: "list_all py_isspace (''  '' @ '' '' @ [] @ [])"
  by code_simp

lemma monitor_touches_one_path:
  "set (events (supreme_monitor B fs req))
     \<subseteq> {Read_File (os_path_join DATA_DIR (monitor_filename (strip (keyword req)) (mode req))),
         Write_File (os_path_join DATA_DIR (monitor_filename (strip (keyword req)) (mode req)))}"
  by (auto simp: supreme_monitor_def Let_def split: sum.splits)

lemma monitor_frame:
  "locate fs (os_path_join DATA_DIR (monitor_filename (strip (keyword req)) (mode req))) \<noteq> Inr n \<Longrightarrow>
   stored (files (supreme_monitor B fs req)) n = stored fs n"
  using json_dump_frame
  by (fastforce simp: supreme_monitor_def Let_def split: sum.splits)

text \<open>
  The keywords \<open>a\<close> followed by a space and \<open>a\<close> followed by an underscore differ only
  in a space against an underscore, and their polls write different files: the trailing
  space is stripped, the trailing underscore is kept.
\<close>

theorem space_vs_underscore_counterexample:
  "replace ''a '' (CHR '' '') (CHR ''_'') = replace ''a_'' (CHR '' '') (CHR ''_'') \<and>
   events (supreme_monitor sample (sandbox []) \<lparr>keyword = ''a '', mode = ''party'', year = None\<rparr>) =
     [Write_File ''monitor_data/a_party.json''] \<and>
   events (supreme_monitor sample (sandbox []) \<lparr>keyword = ''a_'', mode = ''party'', year = None\<rparr>) =
     [Write_File ''monitor_data/a__party.json''] \<and>
   sandbox_locate ''monitor_data/a_party.json'' \<noteq> sandbox_locate ''monitor_data/a__party.json''"
  by code_simp

text \<open>
  C9, as the code has it. The file name is the stripped keyword with each space that is
  left replaced by an underscore, then an underscore, the mode and \<open>.json\<close>. Two
  requests with the same mode whose keywords differ only in surrounding whitespace, or
  only in spaces against underscores between the first and the last character that is
  not whitespace, read and write the same file and no other.
\<close>

theorem snapshot_file_shared:
  "list_all py_isspace (l1 @ r1 @ l2 @ r2) \<and> strip k1 = k1 \<and> strip k2 = k2 \<and>
   replace k1 (CHR '' '') (CHR ''_'') = replace k2 (CHR '' '') (CHR ''_'') \<longrightarrow>
     (let p = os_path_join DATA_DIR (replace k1 (CHR '' '') (CHR ''_'') @ ''_'' @ md @ ''.json'');
          o1 = supreme_monitor B fs \<lparr>keyword = l1 @ k1 @ r1, mode = md, year = y1\<rparr>;
          o2 = supreme_monitor B fs' \<lparr>keyword = l2 @ k2 @ r2, mode = md, year = y2\<rparr>
      in set (events o1) \<subseteq> {Read_File p, Write_File p} \<and>
         set (events o2) \<subseteq> {Read_File p, Write_File p} \<and>
         (\<forall>n. locate fs p \<noteq> Inr n \<longrightarrow> stored (files o1) n = stored fs n) \<and>
         (\<forall>n. locate fs' p \<noteq> Inr n \<longrightarrow> stored (files o2) n = stored fs' n))"
proof (intro impI)
  assume h: "list_all py_isspace (l1 @ r1 @ l2 @ r2) \<and> strip k1 = k1 \<and> strip k2 = k2 \<and>
   replace k1 (CHR '' '') (CHR ''_'') = replace k2 (CHR '' '') (CHR ''_'')"
  let ?r1 = "\<lparr>keyword = l1 @ k1 @ r1, mode = md, year = y1\<rparr>"
  let ?r2 = "\<lparr>keyword = l2 @ k2 @ r2, mode = md, year = y2\<rparr>"
  let ?p = "os_path_join DATA_DIR (replace k1 (CHR '' '') (CHR ''_'') @ ''_'' @ md @ ''.json'')"
  from h have s1: "strip (l1 @ k1 @ r1) = k1" and s2: "strip (l2 @ k2 @ r2) = k2"
    using strip_pad [of l1 r1 k1] strip_pad [of l2 r2 k2] by simp_all
  have p1: "os_path_join DATA_DIR (monitor_filename (strip (keyword ?r1)) (mode ?r1)) = ?p"
    using s1 by (simp add: monitor_filename_def)
  have p2: "os_path_join DATA_DIR (monitor_filename (strip (keyword ?r2)) (mode ?r2)) = ?p"
    using s2 h by (simp add: monitor_filename_def)
  show "let p = ?p; o1 = supreme_monitor B fs ?r1; o2 = supreme_monitor B fs' ?r2
      in set (events o1) \<subseteq> {Read_File p, Write_File p} \<and>
         set (events o2) \<subseteq> {Read_File p, Write_File p} \<and>
         (\<forall>n. locate fs p \<noteq> Inr n \<longrightarrow> stored (files o1) n = stored fs n) \<and>
         (\<forall>n. locate fs' p \<noteq> Inr n \<longrightarrow> stored (files o2) n = stored fs' n)"
    unfolding Let_def
    using monitor_touches_one_path [of B fs ?r1] monitor_touches_one_path [of B fs' ?r2]
      monitor_frame [of fs ?r1 _ B] monitor_frame [of fs' ?r2 _ B]
    unfolding p1 p2 by blast
qed

theorem snapshot_file_shared_witness:
  "list_all py_isspace (''  '' @ '' '' @ [] @ []) \<and>
   strip ''acme ltd'' = ''acme ltd'' \<and> strip ''acme_ltd'' = ''acme_ltd'' \<and>
   replace ''acme ltd'' (CHR '' '') (CHR ''_'') = replace ''acme_ltd'' (CHR '' '') (CHR ''_'') \<and>
   set (events (supreme_monitor sample (sandbox [])
          \<lparr>keyword = ''  acme ltd '', mode = ''party'', year = None\<rparr>))
     \<subseteq> {Read_File ''monitor_data/acme_ltd_party.json'',
        Write_File ''monitor_data/acme_ltd_party.json''} \<and>
   set (events (supreme_monitor sample (sandbox [])
          \<lparr>keyword = ''acme_ltd'', mode = ''party'', year = None\<rparr>))
     \<subseteq> {Read_File ''monitor_data/acme_ltd_party.json'',
        Write_File ''monitor_data/acme_ltd_party.json''}"
  using snapshot_file_shared
    [where ?l1.0 = "''  ''" and ?r1.0 = "'' ''" and ?l2.0 = "[]" and ?r2.0 = "[]"
       and ?k1.0 = "''acme ltd''" and ?k2.0 = "''acme_ltd''" and md = "''party''" and B = sample
       and fs = "sandbox []" and ?y1.0 = None and fs' = "sandbox []" and ?y2.0 = None]
    blanks strip_acme_ltd acme_ltd_replace
  unfolding Let_def acme_ltd_path by simp

end
